theory Spec2Isabelle
  imports Main "HOL-Library.List_Lexorder"
begin

section \<open>Python values\<close>

text \<open>
  A Python \<open>str\<close> is a sequence of Unicode code points; \<open>len\<close> counts code points.
  String literals of the source are written \<open>py ''...''\<close>.
\<close>

type_synonym pystr = "nat list"

definition py :: "string \<Rightarrow> pystr" where
  "py s = map of_char s"

text \<open>Python's \<open>needle in haystack\<close> on strings: a contiguous occurrence.\<close>

fun startswith :: "pystr \<Rightarrow> pystr \<Rightarrow> bool" where
  "startswith s [] = True"
| "startswith [] (p # ps) = False"
| "startswith (c # cs) (p # ps) = (c = p \<and> startswith cs ps)"

fun py_in :: "pystr \<Rightarrow> pystr \<Rightarrow> bool" where
  "py_in needle [] = (needle = [])"
| "py_in needle (c # cs) = (startswith (c # cs) needle \<or> py_in needle cs)"

text \<open>
  \<open>str.lower()\<close>, as far as a search for an ASCII needle can observe it: exact on ASCII,
  and on the two code points beyond ASCII whose lower-case form holds an ASCII letter
  (U+212A KELVIN SIGN gives \<open>k\<close>, U+0130 gives \<open>i\<close> followed by U+0307). Every other
  code point beyond ASCII lower-cases to code points beyond ASCII and is left as it is.
\<close>

definition lower_char :: "nat \<Rightarrow> pystr" where
  "lower_char c =
     (if 65 \<le> c \<and> c \<le> 90 then [c + 32]
      else if c = 8490 then [107]
      else if c = 304 then [105, 775]
      else [c])"

definition py_lower :: "pystr \<Rightarrow> pystr" where
  "py_lower s = concat (map lower_char s)"

text \<open>\<open>str(n)\<close> of a non-negative integer: its decimal digits.\<close>

fun str_nat :: "nat \<Rightarrow> pystr" where
  "str_nat n = (if n < 10 then [48 + n] else str_nat (n div 10) @ [48 + n mod 10])"

declare str_nat.simps [simp del]

section \<open>The pydantic models\<close>

text \<open>
  A field of a request body: left out, sent as \<open>null\<close>, or sent with a value. The JSON
  type of a value that is sent is the field's declared type.
\<close>

datatype 'a field = Unset | Null | Given 'a

record payload =
  p_name :: "pystr field"
  p_email :: "pystr field"
  p_age :: "int field"
  p_is_active :: "bool field"

text \<open>\<open>user.model_dump()\<close> of a \<open>UserCreate\<close>: the four fields of a user.\<close>

record user_fields =
  name :: pystr
  email :: pystr
  age :: int
  is_active :: bool

text \<open>
  The character class of both name validators: \<open>a-z\<close>, \<open>A-Z\<close>, the range from U+00C0 to
  U+00FF, and \<open>\s\<close>, which for a \<open>str\<close> pattern is Unicode white space.
\<close>

definition re_space :: "nat \<Rightarrow> bool" where
  "re_space c \<longleftrightarrow>
     (9 \<le> c \<and> c \<le> 13) \<or> (28 \<le> c \<and> c \<le> 32) \<or> c = 133 \<or> c = 160 \<or> c = 5760 \<or>
     (8192 \<le> c \<and> c \<le> 8202) \<or> c = 8232 \<or> c = 8233 \<or> c = 8239 \<or> c = 8287 \<or> c = 12288"

definition name_class :: "nat \<Rightarrow> bool" where
  "name_class c \<longleftrightarrow>
     (97 \<le> c \<and> c \<le> 122) \<or> (65 \<le> c \<and> c \<le> 90) \<or> (192 \<le> c \<and> c \<le> 255) \<or> re_space c"

text \<open>
  \<open>re.match\<close> of the pattern \<open>^[...]+$\<close> over that class: one or more characters of the
  class, up to the end of the string (a final newline, which \<open>$\<close> would step over, is in
  the class).
\<close>

definition re_match_name :: "pystr \<Rightarrow> bool" where
  "re_match_name v \<longleftrightarrow> v \<noteq> [] \<and> list_all name_class v"

text \<open>\<open>Field(..., min_length=2, max_length=80)\<close>.\<close>

definition name_length_ok :: "pystr \<Rightarrow> bool" where
  "name_length_ok v \<longleftrightarrow> 2 \<le> length v \<and> length v \<le> 80"

text \<open>
  \<open>UserCreate.name_must_contain_letters\<close>: the validator of \<open>name\<close>, run on a value that
  passed the length constraints; \<open>None\<close> stands for the \<open>ValueError\<close>.
\<close>

definition name_must_contain_letters :: "pystr \<Rightarrow> pystr option" where
  "name_must_contain_letters v = (if \<not> re_match_name v then None else Some v)"

text \<open>
  \<open>UserUpdate.validate_name\<close> (\<open>pre=True, always=True\<close>): run on the raw value, also on
  the default \<open>None\<close> of a field left out.
\<close>

definition validate_name :: "pystr option \<Rightarrow> pystr option option" where
  "validate_name v =
     (case v of
        None \<Rightarrow> Some None
      | Some s \<Rightarrow> if \<not> re_match_name s then None else Some (Some s))"

text \<open>
  Validation of a \<open>UserCreate\<close> body. \<open>name\<close>, \<open>email\<close> and \<open>age\<close> are required and not
  nullable, \<open>is_active\<close> defaults to \<open>True\<close>. pydantic reports every failing field; the
  result is the list of failing fields (the \<open>ValidationError\<close>) or the model.
  \<open>EmailStr\<close> is the library's validator, a parameter here: it returns the normalised
  address, or \<open>None\<close> for a string that is not an address.
\<close>

definition create_name_ok :: "pystr field \<Rightarrow> bool" where
  "create_name_ok f =
     (case f of
        Given v \<Rightarrow> name_length_ok v \<and> name_must_contain_letters v \<noteq> None
      | _ \<Rightarrow> False)"

definition create_email_ok :: "(pystr \<Rightarrow> pystr option) \<Rightarrow> pystr field \<Rightarrow> bool" where
  "create_email_ok EmailStr f = (case f of Given v \<Rightarrow> EmailStr v \<noteq> None | _ \<Rightarrow> False)"

definition create_age_ok :: "int field \<Rightarrow> bool" where
  "create_age_ok f = (case f of Given a \<Rightarrow> 0 \<le> a | _ \<Rightarrow> False)"

definition create_is_active_ok :: "bool field \<Rightarrow> bool" where
  "create_is_active_ok f = (case f of Null \<Rightarrow> False | _ \<Rightarrow> True)"

definition UserCreate_errors :: "(pystr \<Rightarrow> pystr option) \<Rightarrow> payload \<Rightarrow> string list" where
  "UserCreate_errors EmailStr p =
     (if create_name_ok (p_name p) then [] else [''name'']) @
     (if create_email_ok EmailStr (p_email p) then [] else [''email'']) @
     (if create_age_ok (p_age p) then [] else [''age'']) @
     (if create_is_active_ok (p_is_active p) then [] else [''is_active''])"

definition given_or :: "'a \<Rightarrow> 'a field \<Rightarrow> 'a" where
  "given_or d f = (case f of Given v \<Rightarrow> v | _ \<Rightarrow> d)"

definition UserCreate :: "(pystr \<Rightarrow> pystr option) \<Rightarrow> payload \<Rightarrow> string list + user_fields" where
  "UserCreate EmailStr p =
     (if UserCreate_errors EmailStr p \<noteq> [] then Inl (UserCreate_errors EmailStr p)
      else Inr \<lparr>name = given_or [] (p_name p),
                email = (case EmailStr (given_or [] (p_email p)) of Some e \<Rightarrow> e | None \<Rightarrow> []),
                age = given_or 0 (p_age p),
                is_active = given_or True (p_is_active p)\<rparr>)"

text \<open>
  Validation of a \<open>UserUpdate\<close> body: every field is optional and nullable; a value that
  is sent meets the constraint of its field. The model keeps which fields were sent.
\<close>

definition to_option :: "'a field \<Rightarrow> 'a option" where
  "to_option f = (case f of Given v \<Rightarrow> Some v | _ \<Rightarrow> None)"

definition update_name_ok :: "pystr field \<Rightarrow> bool" where
  "update_name_ok f =
     (validate_name (to_option f) \<noteq> None \<and>
      (case f of Given v \<Rightarrow> name_length_ok v | _ \<Rightarrow> True))"

definition update_email_ok :: "(pystr \<Rightarrow> pystr option) \<Rightarrow> pystr field \<Rightarrow> bool" where
  "update_email_ok EmailStr f = (case f of Given v \<Rightarrow> EmailStr v \<noteq> None | _ \<Rightarrow> True)"

definition update_age_ok :: "int field \<Rightarrow> bool" where
  "update_age_ok f = (case f of Given a \<Rightarrow> 0 \<le> a | _ \<Rightarrow> True)"

definition UserUpdate_errors :: "(pystr \<Rightarrow> pystr option) \<Rightarrow> payload \<Rightarrow> string list" where
  "UserUpdate_errors EmailStr p =
     (if update_name_ok (p_name p) then [] else [''name'']) @
     (if update_email_ok EmailStr (p_email p) then [] else [''email'']) @
     (if update_age_ok (p_age p) then [] else [''age''])"

definition UserUpdate :: "(pystr \<Rightarrow> pystr option) \<Rightarrow> payload \<Rightarrow> string list + payload" where
  "UserUpdate EmailStr p =
     (if UserUpdate_errors EmailStr p \<noteq> [] then Inl (UserUpdate_errors EmailStr p)
      else Inr (p\<lparr>p_email :=
                   (case p_email p of
                      Given v \<Rightarrow> (case EmailStr v of Some e \<Rightarrow> Given e | None \<Rightarrow> Given v)
                    | f \<Rightarrow> f)\<rparr>))"

section \<open>Exceptions\<close>

text \<open>
  What a route can raise: an \<open>HTTPException\<close> with its status code and detail, or an
  exception of the storage driver, kept as its message \<open>str(e)\<close>.
\<close>

datatype exn = HTTPException nat pystr | DriverError pystr

text \<open>
  \<open>str(e)\<close>. The framework's \<open>HTTPException\<close> prints as its status code, a colon, a space
  and its detail; a driver's exception prints as its message.
\<close>

definition exn_str :: "exn \<Rightarrow> pystr" where
  "exn_str e =
     (case e of
        HTTPException c d \<Rightarrow> str_nat c @ py '': '' @ d
      | DriverError m \<Rightarrow> m)"

text \<open>
  The handler \<open>except Exception as e\<close> of \<open>create_user\<close> and \<open>update_user\<close>: it raises in
  both branches.
\<close>

definition except_Exception :: "exn \<Rightarrow> exn" where
  "except_Exception e =
     (if py_in (py ''duplicate key error'') (py_lower (exn_str e))
      then HTTPException 409 (py ''User with this email already exists'')
      else HTTPException 500 (py ''Internal server error''))"

text \<open>\<open>try: body except Exception as e: handler\<close>, for a handler that always raises.\<close>

definition try_except :: "exn + 'a \<Rightarrow> (exn \<Rightarrow> exn) \<Rightarrow> exn + 'a" where
  "try_except body handler = (case body of Inl e \<Rightarrow> Inl (handler e) | Inr v \<Rightarrow> Inr v)"

text \<open>
  The status of the response: an \<open>HTTPException\<close> carries it; any other exception that
  leaves a route is answered by the framework with 500.
\<close>

definition status_code :: "exn \<Rightarrow> nat" where
  "status_code e = (case e of HTTPException c d \<Rightarrow> c | DriverError m \<Rightarrow> 500)"

section \<open>The storage collaborator\<close>

text \<open>A persisted document, \<open>_id\<close> and the four fields; and the API's resource.\<close>

record 'i doc = user_fields +
  doc_id :: 'i

record resource = user_fields +
  res_id :: pystr

text \<open>A value of the \<open>$set\<close> document.\<close>

datatype fvalue = VStr pystr | VInt int | VBool bool

text \<open>
  The filter document of \<open>get_users\<close>: each key is there or not. \<open>fq_name\<close> holds
  \<open>$regex\<close> and \<open>$options\<close>, \<open>fq_age\<close> the sub-document with \<open>$gte\<close> and \<open>$lte\<close>.
\<close>

record age_cond =
  gte :: "int option"
  lte :: "int option"

record filter_query =
  fq_name :: "(pystr \<times> pystr) option"
  fq_age :: "age_cond option"
  fq_is_active :: "bool option"

record find_args =
  fa_filter :: filter_query
  fa_sort :: "string \<times> int"
  fa_skip :: int
  fa_limit :: int

text \<open>
  The global \<open>users_collection\<close> and \<open>bson.ObjectId\<close>, as an interface over a store state
  \<open>'s\<close> and an identifier type \<open>'i\<close>. A call fails with the driver's message (\<open>Inl\<close>) or
  returns, and every call, a read too, hands back a store state, so that a call made
  can be seen in the state.
  \<open>coll_update_one\<close> returns \<open>matched_count\<close>, \<open>coll_delete_one\<close> returns \<open>deleted_count\<close>.
\<close>

record ('s, 'i) storage =
  ObjectId_is_valid :: "pystr \<Rightarrow> bool"
  ObjectId :: "pystr \<Rightarrow> 'i"
  ObjectId_str :: "'i \<Rightarrow> pystr"
  coll_insert_one :: "'s \<Rightarrow> user_fields \<Rightarrow> (pystr + 'i) \<times> 's"
  coll_find_one :: "'s \<Rightarrow> 'i \<Rightarrow> (pystr + 'i doc option) \<times> 's"
  coll_find :: "'s \<Rightarrow> find_args \<Rightarrow> (pystr + 'i doc list) \<times> 's"
  coll_update_one :: "'s \<Rightarrow> 'i \<Rightarrow> (string \<times> fvalue) list \<Rightarrow> (pystr + nat) \<times> 's"
  coll_delete_one :: "'s \<Rightarrow> 'i \<Rightarrow> (pystr + nat) \<times> 's"

section \<open>Helper functions\<close>

text \<open>
  \<open>get_user_by_id\<close>: the body runs under \<open>try\<close> with a bare \<open>except: return None\<close>, so a
  failed lookup gives \<open>None\<close>, as an identifier that is not valid does.
\<close>

definition get_user_by_id :: "('s, 'i) storage \<Rightarrow> pystr \<Rightarrow> 's \<Rightarrow> 'i doc option \<times> 's" where
  "get_user_by_id db user_id st =
     (if \<not> ObjectId_is_valid db user_id then (None, st)
      else case coll_find_one db st (ObjectId db user_id) of
             (Inl m, st') \<Rightarrow> (None, st')
           | (Inr user, st') \<Rightarrow> (user, st'))"

text \<open>\<open>user_to_dict\<close>: \<open>_id\<close> becomes the string \<open>id\<close>; \<open>None\<close> stays \<open>None\<close>.\<close>

definition user_to_dict :: "('s, 'i) storage \<Rightarrow> 'i doc option \<Rightarrow> resource option" where
  "user_to_dict db user =
     (case user of
        Some u \<Rightarrow> Some \<lparr>name = name u, email = email u, age = age u, is_active = is_active u,
                         res_id = ObjectId_str db (doc_id u)\<rparr>
      | None \<Rightarrow> None)"

section \<open>Routes\<close>

text \<open>
  A route returns its value or raises (\<open>Inl\<close>), and hands back the store state. In
  \<open>create_user\<close> both storage calls and the conversion stand inside the \<open>try\<close>.
\<close>

definition create_user ::
  "('s, 'i) storage \<Rightarrow> user_fields \<Rightarrow> 's \<Rightarrow> (exn + resource option) \<times> 's" where
  "create_user db user st =
     (case coll_insert_one db st user of
        (Inl m, st') \<Rightarrow> (try_except (Inl (DriverError m)) except_Exception, st')
      | (Inr inserted_id, st') \<Rightarrow>
          (case coll_find_one db st' inserted_id of
             (Inl m, st'') \<Rightarrow> (try_except (Inl (DriverError m)) except_Exception, st'')
           | (Inr new_user, st'') \<Rightarrow>
               (try_except (Inr (user_to_dict db new_user)) except_Exception, st'')))"

text \<open>The filter, the sort, \<open>skip\<close> and \<open>limit\<close> that \<open>get_users\<close> builds from its parameters.\<close>

definition build_age :: "int option \<Rightarrow> int option \<Rightarrow> age_cond option" where
  "build_age min_age max_age =
     (if min_age \<noteq> None \<or> max_age \<noteq> None then Some \<lparr>gte = min_age, lte = max_age\<rparr> else None)"

definition build_query ::
  "pystr option \<Rightarrow> int option \<Rightarrow> int option \<Rightarrow> bool option \<Rightarrow> int \<Rightarrow> int \<Rightarrow> find_args" where
  "build_query q min_age max_age is_act page limit =
     \<lparr>fa_filter =
        \<lparr>fq_name = (case q of
                      None \<Rightarrow> None
                    | Some s \<Rightarrow> if s \<noteq> [] then Some (s, py ''i'') else None),
         fq_age = build_age min_age max_age,
         fq_is_active = is_act\<rparr>,
      fa_sort = (''name'', 1),
      fa_skip = (page - 1) * limit,
      fa_limit = limit\<rparr>"

text \<open>The constraints of the \<open>Query\<close> declarations, checked before the route runs.\<close>

definition Query_ok :: "int option \<Rightarrow> int option \<Rightarrow> int \<Rightarrow> int \<Rightarrow> bool" where
  "Query_ok min_age max_age page limit \<longleftrightarrow>
     (case min_age of None \<Rightarrow> True | Some a \<Rightarrow> 0 \<le> a) \<and>
     (case max_age of None \<Rightarrow> True | Some a \<Rightarrow> 0 \<le> a) \<and>
     1 \<le> page \<and> 1 \<le> limit \<and> limit \<le> 100"

definition get_users ::
  "('s, 'i) storage \<Rightarrow> pystr option \<Rightarrow> int option \<Rightarrow> int option \<Rightarrow> bool option \<Rightarrow>
     int \<Rightarrow> int \<Rightarrow> 's \<Rightarrow> (exn + resource option list) \<times> 's" where
  "get_users db q min_age max_age is_act page limit st =
     (case coll_find db st (build_query q min_age max_age is_act page limit) of
        (Inl m, st') \<Rightarrow> (Inl (DriverError m), st')
      | (Inr users, st') \<Rightarrow> (Inr (map (\<lambda>user. user_to_dict db (Some user)) users), st'))"

definition get_user :: "('s, 'i) storage \<Rightarrow> pystr \<Rightarrow> 's \<Rightarrow> (exn + resource option) \<times> 's" where
  "get_user db user_id st =
     (if \<not> ObjectId_is_valid db user_id
      then (Inl (HTTPException 400 (py ''Invalid user ID'')), st)
      else case get_user_by_id db user_id st of
             (None, st') \<Rightarrow> (Inl (HTTPException 404 (py ''User not found'')), st')
           | (Some user, st') \<Rightarrow> (Inr (user_to_dict db (Some user)), st'))"

text \<open>
  \<open>update_data\<close>: the fields that were sent (\<open>exclude_unset=True\<close>) and are not \<open>None\<close>, in
  the order of the model's fields.
\<close>

definition set_item :: "string \<Rightarrow> ('a \<Rightarrow> fvalue) \<Rightarrow> 'a field \<Rightarrow> (string \<times> fvalue) list" where
  "set_item k wrap f = (case f of Given v \<Rightarrow> [(k, wrap v)] | _ \<Rightarrow> [])"

definition update_data :: "payload \<Rightarrow> (string \<times> fvalue) list" where
  "update_data user_update =
     set_item ''name'' VStr (p_name user_update) @
     set_item ''email'' VStr (p_email user_update) @
     set_item ''age'' VInt (p_age user_update) @
     set_item ''is_active'' VBool (p_is_active user_update)"

text \<open>
  \<open>update_user\<close>: the write, the \<open>raise\<close> of the 404 for \<open>matched_count == 0\<close> and the
  read-back all stand inside the \<open>try\<close>, under the handler \<open>except Exception\<close>.
\<close>

definition update_user ::
  "('s, 'i) storage \<Rightarrow> pystr \<Rightarrow> payload \<Rightarrow> 's \<Rightarrow> (exn + resource option) \<times> 's" where
  "update_user db user_id user_update st =
     (if \<not> ObjectId_is_valid db user_id
      then (Inl (HTTPException 400 (py ''Invalid user ID'')), st)
      else if update_data user_update = []
      then (Inl (HTTPException 400 (py ''No data provided for update'')), st)
      else case coll_update_one db st (ObjectId db user_id) (update_data user_update) of
             (Inl m, st') \<Rightarrow> (try_except (Inl (DriverError m)) except_Exception, st')
           | (Inr matched_count, st') \<Rightarrow>
               if matched_count = 0
               then (try_except (Inl (HTTPException 404 (py ''User not found'')))
                       except_Exception, st')
               else case get_user_by_id db user_id st' of
                      (updated_user, st'') \<Rightarrow>
                        (try_except (Inr (user_to_dict db updated_user)) except_Exception, st''))"

text \<open>\<open>delete_user\<close> has no \<open>try\<close>: a failure of the store leaves the route as it is.\<close>

definition delete_user :: "('s, 'i) storage \<Rightarrow> pystr \<Rightarrow> 's \<Rightarrow> (exn + unit) \<times> 's" where
  "delete_user db user_id st =
     (if \<not> ObjectId_is_valid db user_id
      then (Inl (HTTPException 400 (py ''Invalid user ID'')), st)
      else case coll_delete_one db st (ObjectId db user_id) of
             (Inl m, st') \<Rightarrow> (Inl (DriverError m), st')
           | (Inr deleted_count, st') \<Rightarrow>
               if deleted_count = 0 then (Inl (HTTPException 404 (py ''User not found'')), st')
               else (Inr (), st'))"

section \<open>An in-memory document store\<close>

text \<open>
  Modelled from the spec: the storage collaborator is a service outside the repository;
  this store follows its contract in the spec, "document store with a unique constraint
  on \<open>email\<close>, query predicates on equality/range/regex-substring, sort, skip, limit".
  It never fails for a reason of its own. Identifiers are numbers, assigned in order and
  written as 24 hexadecimal digits; the regular expression engine is the parameter
  \<open>regex\<close>, which compiles a pattern with its options or refuses it.
\<close>

record mem_store =
  docs :: "nat doc list"
  next_id :: nat

definition hex_value :: "nat \<Rightarrow> nat option" where
  "hex_value c =
     (if 48 \<le> c \<and> c \<le> 57 then Some (c - 48)
      else if 97 \<le> c \<and> c \<le> 102 then Some (c - 87)
      else if 65 \<le> c \<and> c \<le> 70 then Some (c - 55)
      else None)"

definition mem_is_valid :: "pystr \<Rightarrow> bool" where
  "mem_is_valid s \<longleftrightarrow> length s = 24 \<and> list_all (\<lambda>c. hex_value c \<noteq> None) s"

definition mem_ObjectId :: "pystr \<Rightarrow> nat" where
  "mem_ObjectId s = foldl (\<lambda>a c. 16 * a + (case hex_value c of Some v \<Rightarrow> v | None \<Rightarrow> 0)) 0 s"

definition hex_char :: "nat \<Rightarrow> nat" where
  "hex_char d = (if d < 10 then 48 + d else 87 + d)"

fun hex_digits :: "nat \<Rightarrow> pystr" where
  "hex_digits n =
     (if n < 16 then [hex_char n] else hex_digits (n div 16) @ [hex_char (n mod 16)])"

declare hex_digits.simps [simp del]

definition mem_ObjectId_str :: "nat \<Rightarrow> pystr" where
  "mem_ObjectId_str n = replicate (24 - length (hex_digits n)) 48 @ hex_digits n"

text \<open>The driver's message for a violated unique index.\<close>

definition duplicate_key_message :: pystr where
  "duplicate_key_message =
     py ''E11000 duplicate key error collection: userdb.users index: email_1 dup key''"

definition mem_insert_one :: "mem_store \<Rightarrow> user_fields \<Rightarrow> (pystr + nat) \<times> mem_store" where
  "mem_insert_one st u =
     (if list_ex (\<lambda>d. email d = email u) (docs st) then (Inl duplicate_key_message, st)
      else (Inr (next_id st),
            st\<lparr>docs := docs st @
                    [\<lparr>name = name u, email = email u, age = age u, is_active = is_active u,
                      doc_id = next_id st\<rparr>],
               next_id := Suc (next_id st)\<rparr>))"

definition mem_find_one :: "mem_store \<Rightarrow> nat \<Rightarrow> (pystr + nat doc option) \<times> mem_store" where
  "mem_find_one st i = (Inr (List.find (\<lambda>d. doc_id d = i) (docs st)), st)"

definition age_matches :: "age_cond \<Rightarrow> int \<Rightarrow> bool" where
  "age_matches c a \<longleftrightarrow>
     (case gte c of None \<Rightarrow> True | Some lo \<Rightarrow> lo \<le> a) \<and>
     (case lte c of None \<Rightarrow> True | Some hi \<Rightarrow> a \<le> hi)"

definition matches :: "(pystr \<Rightarrow> bool) \<Rightarrow> filter_query \<Rightarrow> nat doc \<Rightarrow> bool" where
  "matches name_rx flt d \<longleftrightarrow>
     (case fq_name flt of None \<Rightarrow> True | Some r \<Rightarrow> name_rx (name d)) \<and>
     (case fq_age flt of None \<Rightarrow> True | Some c \<Rightarrow> age_matches c (age d)) \<and>
     (case fq_is_active flt of None \<Rightarrow> True | Some b \<Rightarrow> is_active d = b)"

text \<open>The documents a filter selects, in the order of the collection.\<close>

definition mem_select ::
  "(pystr \<Rightarrow> pystr \<Rightarrow> (pystr \<Rightarrow> bool) option) \<Rightarrow> mem_store \<Rightarrow> filter_query \<Rightarrow>
     pystr + nat doc list" where
  "mem_select regex st flt =
     (case (case fq_name flt of
              None \<Rightarrow> Some (\<lambda>s. True)
            | Some (pattern, options) \<Rightarrow> regex pattern options) of
        None \<Rightarrow> Inl (py ''Regular expression is invalid'')
      | Some name_rx \<Rightarrow> Inr (filter (matches name_rx flt) (docs st)))"

text \<open>
  Sorting is stable, strings compare by code points; a negative direction is descending.
\<close>

definition sort_docs :: "string \<times> int \<Rightarrow> nat doc list \<Rightarrow> nat doc list" where
  "sort_docs s ds =
     (let ascending =
            (if fst s = ''name'' then sort_key name ds
             else if fst s = ''email'' then sort_key email ds
             else if fst s = ''age'' then sort_key age ds
             else ds)
      in if snd s < 0 then rev ascending else ascending)"

definition mem_find ::
  "(pystr \<Rightarrow> pystr \<Rightarrow> (pystr \<Rightarrow> bool) option) \<Rightarrow> mem_store \<Rightarrow> find_args \<Rightarrow>
     (pystr + nat doc list) \<times> mem_store" where
  "mem_find regex st a =
     (if fa_skip a < 0 then (Inl (py ''skip must be >= 0''), st)
      else case mem_select regex st (fa_filter a) of
             Inl m \<Rightarrow> (Inl m, st)
           | Inr ms \<Rightarrow>
               (Inr (take (nat (fa_limit a)) (drop (nat (fa_skip a)) (sort_docs (fa_sort a) ms))),
                st))"

text \<open>
  \<open>$set\<close>: the route sends the four fields only, each with a value of its type.
\<close>

fun set_one :: "string \<times> fvalue \<Rightarrow> nat doc \<Rightarrow> nat doc" where
  "set_one (k, VStr v) d =
     (if k = ''name'' then d\<lparr>name := v\<rparr> else if k = ''email'' then d\<lparr>email := v\<rparr> else d)"
| "set_one (k, VInt v) d = (if k = ''age'' then d\<lparr>age := v\<rparr> else d)"
| "set_one (k, VBool v) d = (if k = ''is_active'' then d\<lparr>is_active := v\<rparr> else d)"

fun replace_first :: "('a \<Rightarrow> bool) \<Rightarrow> 'a \<Rightarrow> 'a list \<Rightarrow> 'a list" where
  "replace_first P y [] = []"
| "replace_first P y (x # xs) = (if P x then y # xs else x # replace_first P y xs)"

fun remove_first :: "('a \<Rightarrow> bool) \<Rightarrow> 'a list \<Rightarrow> 'a list" where
  "remove_first P [] = []"
| "remove_first P (x # xs) = (if P x then xs else x # remove_first P xs)"

definition mem_update_one ::
  "mem_store \<Rightarrow> nat \<Rightarrow> (string \<times> fvalue) list \<Rightarrow> (pystr + nat) \<times> mem_store" where
  "mem_update_one st i upd =
     (case List.find (\<lambda>d. doc_id d = i) (docs st) of
        None \<Rightarrow> (Inr 0, st)
      | Some d \<Rightarrow>
          if list_ex (\<lambda>x. doc_id x \<noteq> i \<and> email x = email (fold set_one upd d)) (docs st)
          then (Inl duplicate_key_message, st)
          else (Inr 1,
                st\<lparr>docs := replace_first (\<lambda>x. doc_id x = i) (fold set_one upd d) (docs st)\<rparr>))"

definition mem_delete_one :: "mem_store \<Rightarrow> nat \<Rightarrow> (pystr + nat) \<times> mem_store" where
  "mem_delete_one st i =
     (if list_ex (\<lambda>d. doc_id d = i) (docs st)
      then (Inr 1, st\<lparr>docs := remove_first (\<lambda>d. doc_id d = i) (docs st)\<rparr>)
      else (Inr 0, st))"

definition mem_db ::
  "(pystr \<Rightarrow> pystr \<Rightarrow> (pystr \<Rightarrow> bool) option) \<Rightarrow> (mem_store, nat) storage" where
  "mem_db regex =
     \<lparr>ObjectId_is_valid = mem_is_valid,
      ObjectId = mem_ObjectId,
      ObjectId_str = mem_ObjectId_str,
      coll_insert_one = mem_insert_one,
      coll_find_one = mem_find_one,
      coll_find = mem_find regex,
      coll_update_one = mem_update_one,
      coll_delete_one = mem_delete_one\<rparr>"

text \<open>
  The store's invariant: identifiers are distinct and already assigned, and no two
  documents share an email.
\<close>

definition mem_wf :: "mem_store \<Rightarrow> bool" where
  "mem_wf st \<longleftrightarrow>
     distinct (map doc_id (docs st)) \<and> list_all (\<lambda>d. doc_id d < next_id st) (docs st) \<and>
     distinct (map email (docs st))"

text \<open>
  A store that cannot be reached: every call fails with the message \<open>m\<close>, and counts the
  calls made.
\<close>

definition offline_db :: "pystr \<Rightarrow> (nat, nat) storage" where
  "offline_db m =
     \<lparr>ObjectId_is_valid = mem_is_valid,
      ObjectId = mem_ObjectId,
      ObjectId_str = mem_ObjectId_str,
      coll_insert_one = (\<lambda>n u. (Inl m, Suc n)),
      coll_find_one = (\<lambda>n i. (Inl m, Suc n)),
      coll_find = (\<lambda>n a. (Inl m, Suc n)),
      coll_update_one = (\<lambda>n i upd. (Inl m, Suc n)),
      coll_delete_one = (\<lambda>n i. (Inl m, Suc n))\<rparr>"

section \<open>The identifier check of the library\<close>

text \<open>
  \<open>ObjectId.is_valid\<close> on a string, the check that the routes call: the string has 24
  characters and \<open>bytes.fromhex\<close> reads it. \<open>bytes.fromhex\<close> reads pairs of hexadecimal
  digits and skips ASCII white space before a pair and at the end; it refuses white
  space inside a pair, any other character, and a digit left alone.
\<close>

definition ascii_space :: "nat \<Rightarrow> bool" where
  "ascii_space c \<longleftrightarrow> (9 \<le> c \<and> c \<le> 13) \<or> c = 32"

fun fromhex_ok :: "pystr \<Rightarrow> bool" where
  "fromhex_ok [] = True"
| "fromhex_ok [c] = ascii_space c"
| "fromhex_ok (c # d # ds) =
     (if ascii_space c then fromhex_ok (d # ds)
      else hex_value c \<noteq> None \<and> hex_value d \<noteq> None \<and> fromhex_ok ds)"

definition bson_is_valid :: "pystr \<Rightarrow> bool" where
  "bson_is_valid s \<longleftrightarrow> length s = 24 \<and> fromhex_ok s"

section \<open>Notions used in the statements\<close>

text \<open>
  The store's native identifier format in the spec's words, "24 hex characters"; it is
  the format the in-memory store takes.
\<close>

definition spec_id_format :: "pystr \<Rightarrow> bool" where
  "spec_id_format s \<longleftrightarrow> length s = 24 \<and> list_all (\<lambda>c. hex_value c \<noteq> None) s"

text \<open>A field that carries no value: left out, or sent as \<open>null\<close>.\<close>

definition no_value :: "'a field \<Rightarrow> bool" where
  "no_value f = (case f of Given v \<Rightarrow> False | _ \<Rightarrow> True)"

text \<open>
  The search text is one the store's regular expression engine takes: absent, empty (then
  no pattern is sent), or a pattern the engine compiles with the option \<open>i\<close>.
\<close>

definition regex_accepts ::
  "(pystr \<Rightarrow> pystr \<Rightarrow> (pystr \<Rightarrow> bool) option) \<Rightarrow> pystr option \<Rightarrow> bool" where
  "regex_accepts regex q =
     (case q of None \<Rightarrow> True | Some s \<Rightarrow> s = [] \<or> regex s (py ''i'') \<noteq> None)"

text \<open>The resource of a document of the in-memory store, as \<open>user_to_dict\<close> builds it.\<close>

definition to_resource :: "nat doc \<Rightarrow> resource" where
  "to_resource d = \<lparr>name = name d, email = email d, age = age d, is_active = is_active d,
                    res_id = mem_ObjectId_str (doc_id d)\<rparr>"

text \<open>
  The name rule in the spec's words, "length in [2,80], composed only of letters
  (including accented Latin letters) and spaces": the letters are \<open>A-Z\<close>, \<open>a-z\<close> and the
  letters of the accented Latin range U+00C0 to U+00FF, which holds two signs that are
  not letters, U+00D7 (multiplication) and U+00F7 (division); the spaces are the white
  space of the spec's pattern.
\<close>

definition spec_letter :: "nat \<Rightarrow> bool" where
  "spec_letter c \<longleftrightarrow>
     (65 \<le> c \<and> c \<le> 90) \<or> (97 \<le> c \<and> c \<le> 122) \<or>
     (192 \<le> c \<and> c \<le> 255 \<and> c \<noteq> 215 \<and> c \<noteq> 247)"

definition spec_name_ok :: "pystr \<Rightarrow> bool" where
  "spec_name_ok v \<longleftrightarrow>
     2 \<le> length v \<and> length v \<le> 80 \<and> list_all (\<lambda>c. spec_letter c \<or> re_space c) v"

section \<open>Sample data\<close>

text \<open>A well-formed identifier, a user, an engine that refuses every pattern, and stores.\<close>

definition sample_id :: pystr where
  "sample_id = py ''507f1f77bcf86cd799439011''"

definition sample_user :: user_fields where
  "sample_user = \<lparr>name = py ''Ann'', email = py ''a@b.com'', age = 30, is_active = True\<rparr>"

definition no_regex :: "pystr \<Rightarrow> pystr \<Rightarrow> (pystr \<Rightarrow> bool) option" where
  "no_regex pattern options = None"

definition empty_store :: mem_store where
  "empty_store = \<lparr>docs = [], next_id = 0\<rparr>"

definition four_users :: mem_store where
  "four_users =
     \<lparr>docs =
        [\<lparr>name = py ''Dan'', email = py ''d@x.org'', age = 17, is_active = True, doc_id = 0\<rparr>,
         \<lparr>name = py ''Cleo'', email = py ''c@x.org'', age = 25, is_active = True, doc_id = 1\<rparr>,
         \<lparr>name = py ''Bea'', email = py ''b@x.org'', age = 30, is_active = True, doc_id = 2\<rparr>,
         \<lparr>name = py ''Al'', email = py ''a@x.org'', age = 40, is_active = False, doc_id = 3\<rparr>],
      next_id = 4\<rparr>"

definition fifteen_users :: mem_store where
  "fifteen_users =
     \<lparr>docs = map (\<lambda>i. \<lparr>name = [97 + i], email = [97 + i, 64, 120], age = 20 + int i,
                        is_active = True, doc_id = i\<rparr>) [0..<15],
      next_id = 15\<rparr>"



text \<open>A store whose insert succeeds and whose every other call fails with the message.\<close>

definition insert_only_db :: "pystr \<Rightarrow> (nat, nat) storage" where
  "insert_only_db m = (offline_db m)\<lparr>coll_insert_one := (\<lambda>n u. (Inr 7, Suc n))\<rparr>"

section \<open>Evaluating the exception handler\<close>

lemma except_404:
  "except_Exception (HTTPException 404 (py ''User not found'')) =
     HTTPException 500 (py ''Internal server error'')"
  by (simp add: except_Exception_def exn_str_def py_def py_lower_def lower_char_def str_nat.simps)

lemma except_duplicate_key:
  "except_Exception (DriverError duplicate_key_message) =
     HTTPException 409 (py ''User with this email already exists'')"
  by (simp add: except_Exception_def exn_str_def duplicate_key_message_def py_def py_lower_def
      lower_char_def)

lemma except_other:
  "\<not> py_in (py ''duplicate key error'') (py_lower m) \<Longrightarrow>
     except_Exception (DriverError m) = HTTPException 500 (py ''Internal server error'')"
  by (simp add: except_Exception_def exn_str_def)

lemma refused_not_duplicate:
  "\<not> py_in (py ''duplicate key error'') (py_lower (py ''connection refused''))"
  by (simp add: py_def py_lower_def lower_char_def)

section \<open>The identifier codec of the in-memory store\<close>

lemma valid_sample: "mem_is_valid (py ''507f1f77bcf86cd799439011'')"
  by (simp add: mem_is_valid_def py_def hex_value_def)

lemma hex_value_hex_char: "d < 16 \<Longrightarrow> hex_value (hex_char d) = Some d"
  by (simp add: hex_value_def hex_char_def)

lemma ObjectId_hex_digits: "mem_ObjectId (hex_digits n) = n"
proof (induction n rule: hex_digits.induct)
  case (1 n)
  show ?case
  proof (cases "n < 16")
    case True
    then show ?thesis
      by (subst hex_digits.simps) (simp add: mem_ObjectId_def hex_value_hex_char)
  next
    case False
    with 1 have ih: "mem_ObjectId (hex_digits (n div 16)) = n div 16" by simp
    have "mem_ObjectId (hex_digits n) =
            16 * mem_ObjectId (hex_digits (n div 16)) + n mod 16"
      using False
      by (subst hex_digits.simps) (simp add: mem_ObjectId_def hex_value_hex_char)
    then show ?thesis using ih by simp
  qed
qed

lemma ObjectId_leading_zeros: "mem_ObjectId (replicate k 48 @ s) = mem_ObjectId s"
proof -
  have "foldl (\<lambda>a c. 16 * a + (case hex_value c of Some v \<Rightarrow> v | None \<Rightarrow> 0)) 0
          (replicate k 48) = 0"
    by (induction k) (simp_all add: hex_value_def)
  then show ?thesis by (simp add: mem_ObjectId_def)
qed

lemma ObjectId_roundtrip: "mem_ObjectId (mem_ObjectId_str n) = n"
  by (simp add: mem_ObjectId_str_def ObjectId_leading_zeros ObjectId_hex_digits)

lemma ObjectId_str_inj: "mem_ObjectId_str a = mem_ObjectId_str b \<Longrightarrow> a = b"
  by (metis ObjectId_roundtrip)

section \<open>The library's identifier check and the native format\<close>

text \<open>
  Every string in the native format passes the check; a string without white space passes
  it only if it is in the native format.
\<close>

lemma hex_not_space: "hex_value c \<noteq> None \<Longrightarrow> \<not> ascii_space c"
  by (auto simp: hex_value_def ascii_space_def split: if_splits)

lemma fromhex_hex_pairs:
  "list_all (\<lambda>c. hex_value c \<noteq> None) s \<Longrightarrow> even (length s) \<Longrightarrow> fromhex_ok s"
  by (induction s rule: fromhex_ok.induct) (simp_all add: hex_not_space)

lemma spec_id_format_valid: "spec_id_format s \<Longrightarrow> bson_is_valid s"
  by (simp add: spec_id_format_def bson_is_valid_def fromhex_hex_pairs)

lemma fromhex_no_space:
  "fromhex_ok s \<Longrightarrow> list_all (\<lambda>c. \<not> ascii_space c) s \<Longrightarrow>
     list_all (\<lambda>c. hex_value c \<noteq> None) s"
  by (induction s rule: fromhex_ok.induct) simp_all

lemma bson_is_valid_no_space:
  "list_all (\<lambda>c. \<not> ascii_space c) s \<Longrightarrow> bson_is_valid s \<longleftrightarrow> spec_id_format s"
  using fromhex_no_space spec_id_format_valid
  by (auto simp: bson_is_valid_def spec_id_format_def)

lemma mem_is_valid_spec: "mem_is_valid s \<longleftrightarrow> spec_id_format s"
  by (simp add: mem_is_valid_def spec_id_format_def)



section \<open>Listing on the in-memory store\<close>

lemma sort_docs_name: "sort_docs (''name'', 1) ds = sort_key name ds"
  by (simp add: sort_docs_def)

lemma build_query_fields:
  "fa_sort (build_query q mn mx act page limit) = (''name'', 1)"
  "fa_skip (build_query q mn mx act page limit) = (page - 1) * limit"
  "fa_limit (build_query q mn mx act page limit) = limit"
  "fq_age (fa_filter (build_query q mn mx act page limit)) = build_age mn mx"
  by (simp_all add: build_query_def)

lemma user_to_dict_mem: "user_to_dict (mem_db regex) (Some d) = Some (to_resource d)"
  by (simp add: user_to_dict_def mem_db_def to_resource_def)

lemma get_users_mem:
  assumes "mem_select regex st (fa_filter (build_query q mn mx act page limit)) = Inr ms"
    and "1 \<le> page" and "0 \<le> limit"
  shows "get_users (mem_db regex) q mn mx act page limit st =
           (Inr (map (\<lambda>d. user_to_dict (mem_db regex) (Some d))
                   (take (nat limit) (drop (nat ((page - 1) * limit)) (sort_key name ms)))), st)"
proof -
  have "0 \<le> (page - 1) * limit" using assms(2,3) by simp
  then show ?thesis
    using assms(1)
    by (simp add: get_users_def mem_db_def mem_find_def build_query_fields sort_docs_name)
qed

lemma mem_select_total:
  assumes "regex_accepts regex q"
  shows "\<exists>rx. mem_select regex st (fa_filter (build_query q mn mx act page limit)) =
           Inr (filter (matches rx (fa_filter (build_query q mn mx act page limit))) (docs st))"
  using assms
  by (cases q) (auto simp: mem_select_def build_query_def regex_accepts_def)

lemma mem_select_refused:
  assumes "\<not> regex_accepts regex q"
  shows "mem_select regex st (fa_filter (build_query q mn mx act page limit)) =
           Inl (py ''Regular expression is invalid'')"
  using assms
  by (cases q) (auto simp: mem_select_def build_query_def regex_accepts_def)

lemma set_item_no_value: "no_value f \<Longrightarrow> set_item k w f = []"
  by (cases f) (simp_all add: set_item_def no_value_def)

lemma find_fresh_append:
  "list_all (\<lambda>d. \<not> P d) xs \<Longrightarrow> P y \<Longrightarrow> List.find P (xs @ [y]) = Some y"
  by (induction xs) simp_all

lemma distinct_ids_resources:
  assumes "distinct (map doc_id ds)"
  shows "distinct (map to_resource ds)"
proof -
  have "inj_on to_resource (set ds)"
  proof (rule inj_onI)
    fix x y assume xy: "x \<in> set ds" "y \<in> set ds" "to_resource x = to_resource y"
    then have "mem_ObjectId_str (doc_id x) = mem_ObjectId_str (doc_id y)"
      by (simp add: to_resource_def)
    then have "doc_id x = doc_id y" by (rule ObjectId_str_inj)
    moreover have "inj_on doc_id (set ds)" using assms by (simp add: distinct_map)
    ultimately show "x = y" using xy(1,2) by (auto dest: inj_onD)
  qed
  moreover have "distinct ds" using assms by (simp add: distinct_map)
  ultimately show ?thesis by (simp add: distinct_map)
qed

lemma mem_select_distinct:
  assumes "mem_wf st" and "mem_select regex st flt = Inr ms"
  shows "distinct (map doc_id (sort_key name ms))"
proof -
  obtain rx where "ms = filter (matches rx flt) (docs st)"
    using assms(2) by (auto simp: mem_select_def split: option.splits prod.splits)
  moreover have "distinct (map doc_id (docs st))" using assms(1) by (simp add: mem_wf_def)
  ultimately have "distinct (map doc_id ms)" by (simp add: distinct_map_filter)
  then show ?thesis
    by (simp add: distinct_map)
qed

lemma pages_disjoint:
  assumes "distinct xs" and "i + n \<le> j"
  shows "set (take n (drop i xs)) \<inter> set (take m (drop j xs)) = {}"
proof -
  have "take n (drop i xs) = drop i (take (i + n) xs)"
    by (simp add: drop_take)
  then have "set (take n (drop i xs)) \<subseteq> set (take (i + n) xs)"
    by (simp add: set_drop_subset)
  moreover have "set (take m (drop j xs)) \<subseteq> set (drop j xs)"
    by (rule set_take_subset)
  moreover have "set (take (i + n) xs) \<inter> set (drop j xs) = {}"
    using assms by (rule set_take_disj_set_drop_if_distinct)
  ultimately show ?thesis by blast
qed

section \<open>Updating on the in-memory store\<close>

lemma find_SomeD: "List.find P xs = Some d \<Longrightarrow> P d \<and> d \<in> set xs"
  by (induction xs) (auto split: if_splits)

lemma find_replace_first:
  "List.find P xs = Some d \<Longrightarrow> P d' \<Longrightarrow> List.find P (replace_first P d' xs) = Some d'"
  by (induction xs) (auto split: if_splits)

lemma unique_email_other:
  assumes "mem_wf st" and "List.find (\<lambda>x. doc_id x = i) (docs st) = Some d"
    and "email d' = email d"
  shows "\<not> list_ex (\<lambda>x. doc_id x \<noteq> i \<and> email x = email d') (docs st)"
proof
  assume "list_ex (\<lambda>x. doc_id x \<noteq> i \<and> email x = email d') (docs st)"
  then obtain x where x: "x \<in> set (docs st)" "doc_id x \<noteq> i" "email x = email d'"
    by (auto simp: list_ex_iff)
  have d: "d \<in> set (docs st)" "doc_id d = i" using find_SomeD[OF assms(2)] by simp_all
  have "inj_on email (set (docs st))" using assms(1) by (simp add: mem_wf_def distinct_map)
  then have "x = d" using x(1,3) d(1) assms(3) by (auto dest: inj_onD)
  with x(2) d(2) show False by simp
qed

lemma update_one_field:
  assumes "mem_wf st" and "mem_is_valid user_id"
    and "List.find (\<lambda>x. doc_id x = mem_ObjectId user_id) (docs st) = Some d"
    and "update_data upd = [kv]" and "email (set_one kv d) = email d"
    and "doc_id (set_one kv d) = doc_id d"
  shows "update_user (mem_db regex) user_id upd st =
           (Inr (Some (to_resource (set_one kv d))),
            st\<lparr>docs := replace_first (\<lambda>x. doc_id x = mem_ObjectId user_id) (set_one kv d)
                         (docs st)\<rparr>)"
proof -
  let ?i = "mem_ObjectId user_id"
  let ?d' = "set_one kv d"
  let ?st' = "st\<lparr>docs := replace_first (\<lambda>x. doc_id x = ?i) ?d' (docs st)\<rparr>"
  have idd: "doc_id d = ?i" using find_SomeD[OF assms(3)] by simp
  have "\<not> list_ex (\<lambda>x. doc_id x \<noteq> ?i \<and> email x = email ?d') (docs st)"
    using assms(1,3,5) by (rule unique_email_other)
  then have up: "mem_update_one st ?i [kv] = (Inr 1, ?st')"
    using assms(3) by (simp add: mem_update_one_def)
  have "List.find (\<lambda>x. doc_id x = ?i) (docs ?st') = Some ?d'"
    using assms(3,6) idd by (simp add: find_replace_first)
  then have get: "get_user_by_id (mem_db regex) user_id ?st' = (Some ?d', ?st')"
    using assms(2) by (simp add: get_user_by_id_def mem_db_def mem_find_one_def)
  have sel: "ObjectId_is_valid (mem_db regex) user_id" "ObjectId (mem_db regex) user_id = ?i"
    "coll_update_one (mem_db regex) = mem_update_one"
    using assms(2) by (simp_all add: mem_db_def)
  show ?thesis
    using assms(4) by (simp add: update_user_def sel up get try_except_def user_to_dict_mem)
qed

section \<open>The fields of an update\<close>

lemma set_item_iff:
  "(k, v) \<in> set (set_item k' w f) \<longleftrightarrow> (\<exists>x. f = Given x \<and> k = k' \<and> v = w x)"
  by (cases f) (auto simp: set_item_def)

lemma update_data_iff:
  "(k, v) \<in> set (update_data p) \<longleftrightarrow>
     (\<exists>n. p_name p = Given n \<and> k = ''name'' \<and> v = VStr n) \<or>
     (\<exists>e. p_email p = Given e \<and> k = ''email'' \<and> v = VStr e) \<or>
     (\<exists>a. p_age p = Given a \<and> k = ''age'' \<and> v = VInt a) \<or>
     (\<exists>b. p_is_active p = Given b \<and> k = ''is_active'' \<and> v = VBool b)"
  by (simp add: update_data_def set_item_iff)

lemma except_Exception_cases:
  "except_Exception e = HTTPException 409 (py ''User with this email already exists'') \<or>
   except_Exception e = HTTPException 500 (py ''Internal server error'')"
  by (simp add: except_Exception_def)

lemma not_empty_update:
  assumes "ObjectId_is_valid db user_id" and "update_data p \<noteq> []"
  shows "fst (update_user db user_id p st) \<noteq>
           Inl (HTTPException 400 (py ''No data provided for update''))"
proof -
  have h: "\<And>e. except_Exception e \<noteq> HTTPException 400 (py ''No data provided for update'')"
    by (simp add: except_Exception_def)
  show ?thesis
    using assms h
    by (auto simp: update_user_def try_except_def split: prod.splits sum.splits)
qed

lemma only_is_active:
  assumes "no_value (p_name p)" and "no_value (p_email p)" and "no_value (p_age p)"
    and "p_is_active p = Given b"
  shows "update_data p = [(''is_active'', VBool b)]"
  using assms by (simp add: update_data_def set_item_no_value) (simp add: set_item_def)

lemma only_age:
  assumes "no_value (p_name p)" and "no_value (p_email p)" and "no_value (p_is_active p)"
    and "p_age p = Given a"
  shows "update_data p = [(''age'', VInt a)]"
  using assms by (simp add: update_data_def set_item_no_value) (simp add: set_item_def)

section \<open>The invariant of the in-memory store\<close>

text \<open>
  The empty store meets the invariant, and every write keeps it: the unique index holds
  at all times.
\<close>

lemma mem_wf_empty: "mem_wf empty_store"
  by (simp add: mem_wf_def empty_store_def)

lemma mem_wf_insert: "mem_wf st \<Longrightarrow> mem_wf (snd (mem_insert_one st u))"
  by (auto simp: mem_wf_def mem_insert_one_def list_all_iff list_ex_iff)

lemma set_remove_first: "set (remove_first P xs) \<subseteq> set xs"
  by (induction xs) auto

lemma distinct_map_remove_first:
  "distinct (map f xs) \<Longrightarrow> distinct (map f (remove_first P xs))"
proof (induction xs)
  case Nil
  then show ?case by simp
next
  case (Cons x xs)
  then show ?case using set_remove_first[of P xs] by auto
qed

lemma mem_wf_delete: "mem_wf st \<Longrightarrow> mem_wf (snd (mem_delete_one st i))"
  using set_remove_first[of "\<lambda>d. doc_id d = i" "docs st"]
  by (auto simp: mem_wf_def mem_delete_one_def list_all_iff distinct_map_remove_first)

lemma set_one_id: "doc_id (set_one kv d) = doc_id d"
  by (induction kv d rule: set_one.induct) simp_all

lemma fold_set_one_id: "doc_id (fold set_one upd d) = doc_id d"
  by (induction upd arbitrary: d) (simp_all add: set_one_id)

lemma map_replace_first_id:
  "distinct (map f xs) \<Longrightarrow> f y = i \<Longrightarrow>
     map f (replace_first (\<lambda>x. f x = i) y xs) = map f xs"
  by (induction xs) auto

lemma set_replace_first: "set (replace_first P y xs) \<subseteq> insert y (set xs)"
  by (induction xs) auto

lemma distinct_email_replace_first:
  assumes "distinct (map doc_id xs)" and "distinct (map email xs)"
    and "\<forall>x \<in> set xs. doc_id x \<noteq> i \<longrightarrow> email x \<noteq> email y"
  shows "distinct (map email (replace_first (\<lambda>x. doc_id x = i) y xs))"
  using assms
proof (induction xs)
  case Nil
  then show ?case by simp
next
  case (Cons x xs)
  show ?case
  proof (cases "doc_id x = i")
    case True
    then have "i \<notin> doc_id ` set xs" using Cons.prems(1) by simp
    then have "\<forall>z \<in> set xs. doc_id z \<noteq> i" by blast
    then have "email y \<notin> email ` set xs" using Cons.prems(3) by auto
    then show ?thesis using True Cons.prems(2) by simp
  next
    case False
    have "email x \<noteq> email y" using False Cons.prems(3) by simp
    moreover have "email x \<notin> email ` set xs" using Cons.prems(2) by simp
    ultimately have "email x \<notin> email ` set (replace_first (\<lambda>x. doc_id x = i) y xs)"
      using set_replace_first[of "\<lambda>x. doc_id x = i" y xs] by auto
    then show ?thesis using False Cons by simp
  qed
qed

lemma mem_wf_update: "mem_wf st \<Longrightarrow> mem_wf (snd (mem_update_one st i upd))"
proof -
  assume wf: "mem_wf st"
  show ?thesis
  proof (cases "List.find (\<lambda>d. doc_id d = i) (docs st)")
    case None
    then show ?thesis using wf by (simp add: mem_update_one_def)
  next
    case (Some d)
    let ?d' = "fold set_one upd d"
    show ?thesis
    proof (cases "list_ex (\<lambda>x. doc_id x \<noteq> i \<and> email x = email ?d') (docs st)")
      case True
      then show ?thesis using wf Some by (simp add: mem_update_one_def)
    next
      case False
      have idd: "doc_id ?d' = i" using find_SomeD[OF Some] by (simp add: fold_set_one_id)
      have ids: "map doc_id (replace_first (\<lambda>x. doc_id x = i) ?d' (docs st)) =
                 map doc_id (docs st)"
        using wf idd by (simp add: mem_wf_def map_replace_first_id)
      have "\<forall>x \<in> set (docs st). doc_id x \<noteq> i \<longrightarrow> email x \<noteq> email ?d'"
        using False by (auto simp: list_ex_iff)
      then have em: "distinct (map email (replace_first (\<lambda>x. doc_id x = i) ?d' (docs st)))"
        using wf by (intro distinct_email_replace_first) (simp_all add: mem_wf_def)
      have "list_all (\<lambda>d. doc_id d < next_id st)
              (replace_first (\<lambda>x. doc_id x = i) ?d' (docs st))"
      proof -
        have "list_all (\<lambda>n. n < next_id st) (map doc_id (docs st))"
          using wf by (simp add: mem_wf_def list_all_iff)
        then have "list_all (\<lambda>n. n < next_id st)
                     (map doc_id (replace_first (\<lambda>x. doc_id x = i) ?d' (docs st)))"
          using ids by simp
        then show ?thesis by (simp add: list_all_iff)
      qed
      then show ?thesis
        using wf Some False ids em by (simp add: mem_update_one_def mem_wf_def)
    qed
  qed
qed

section \<open>The name validators\<close>

lemma create_name_ok_iff:
  "create_name_ok (Given v) \<longleftrightarrow> name_length_ok v \<and> list_all name_class v"
  by (auto simp: create_name_ok_def name_must_contain_letters_def re_match_name_def
      name_length_ok_def)

lemma name_class_spec:
  "c \<noteq> 215 \<Longrightarrow> c \<noteq> 247 \<Longrightarrow> name_class c \<longleftrightarrow> spec_letter c \<or> re_space c"
  by (auto simp: name_class_def spec_letter_def)

text \<open>Away from the two signs, the validator of \<open>UserCreate\<close> is the rule of the spec.\<close>

lemma create_name_ok_spec:
  assumes "215 \<notin> set v" and "247 \<notin> set v"
  shows "create_name_ok (Given v) \<longleftrightarrow> spec_name_ok v"
proof -
  have "list_all name_class v \<longleftrightarrow> list_all (\<lambda>c. spec_letter c \<or> re_space c) v"
    using assms by (induction v) (auto simp: name_class_spec)
  then show ?thesis
    by (simp add: create_name_ok_iff spec_name_ok_def name_length_ok_def)
qed

text \<open>The name \<open>A1\<close> of the spec's example is refused, on the field \<open>name\<close>.\<close>

lemma A1_rejected:
  "UserCreate EmailStr \<lparr>p_name = Given (py ''A1''), p_email = Given (py ''a@b.com''),
      p_age = Given 5, p_is_active = Unset\<rparr> =
     Inl (UserCreate_errors EmailStr \<lparr>p_name = Given (py ''A1''), p_email = Given (py ''a@b.com''),
      p_age = Given 5, p_is_active = Unset\<rparr>) \<and>
   ''name'' \<in> set (UserCreate_errors EmailStr \<lparr>p_name = Given (py ''A1''),
      p_email = Given (py ''a@b.com''), p_age = Given 5, p_is_active = Unset\<rparr>)"
  by (simp add: UserCreate_def UserCreate_errors_def create_name_ok_iff name_class_def
      re_space_def py_def)

section \<open>Facts about the sample data\<close>

lemma sample_id_valid_offline: "ObjectId_is_valid (offline_db m) sample_id"
  using valid_sample by (simp add: offline_db_def sample_id_def)

lemma sample_id_valid_insert_only: "ObjectId_is_valid (insert_only_db m) sample_id"
  using valid_sample by (simp add: insert_only_db_def offline_db_def sample_id_def)

lemma four_users_wf: "mem_wf four_users"
  by (simp add: mem_wf_def four_users_def py_def)

lemma fifteen_users_wf: "mem_wf fifteen_users"
proof -
  have "map doc_id (docs fifteen_users) = [0..<15]"
    by (simp add: fifteen_users_def comp_def map_idI)
  moreover have "inj_on (\<lambda>i::nat. [97 + i, 64, 120]) (set [0..<15])"
    by (rule inj_onI) simp
  ultimately show ?thesis
    by (simp add: mem_wf_def fifteen_users_def comp_def distinct_map list_all_iff)
qed

lemma four_users_listing:
  "get_users (mem_db no_regex) None (Some 18) (Some 30) None 1 10 four_users =
     (Inr [Some \<lparr>name = py ''Bea'', email = py ''b@x.org'', age = 30, is_active = True,
                 res_id = mem_ObjectId_str 2\<rparr>,
           Some \<lparr>name = py ''Cleo'', email = py ''c@x.org'', age = 25, is_active = True,
                 res_id = mem_ObjectId_str 1\<rparr>], four_users)"
  by (simp add: get_users_def mem_db_def mem_find_def mem_select_def build_query_def
      build_age_def four_users_def matches_def age_matches_def sort_docs_def user_to_dict_def
      py_def)

lemma id_two: "mem_ObjectId (py ''000000000000000000000002'') = 2"
  by (simp add: mem_ObjectId_def py_def hex_value_def)

lemma id_two_valid: "mem_is_valid (py ''000000000000000000000002'')"
  by (simp add: mem_is_valid_def py_def hex_value_def)

section \<open>The claims\<close>

text \<open>
  C9. A search text \<open>q\<close> that is the empty string adds no name predicate: the filter, the
  sort, \<open>skip\<close> and \<open>limit\<close> built for it are those built when \<open>q\<close> is left out, and so the
  two listings are the same call to the store.
\<close>

theorem empty_q_is_no_q:
  "build_query (Some []) min_age max_age is_act page limit =
     build_query None min_age max_age is_act page limit \<and>
   get_users db (Some []) min_age max_age is_act page limit st =
     get_users db None min_age max_age is_act page limit st"
  by (simp add: build_query_def get_users_def)




text \<open>
  C1. What \<open>update_user\<close> does for a valid identifier that matches no document and a
  non-empty update: the \<open>HTTPException\<close> with status 404 is raised inside the \<open>try\<close>, the
  handler \<open>except Exception\<close> catches it, and the route answers 500, "Internal server
  error". The claim's 404 is not what reaches the caller.
\<close>

theorem update_user_unmatched_answers_500:
  "ObjectId_is_valid db user_id \<Longrightarrow> update_data upd \<noteq> [] \<Longrightarrow>
   coll_update_one db st (ObjectId db user_id) (update_data upd) = (Inr 0, st') \<Longrightarrow>
   update_user db user_id upd st = (Inl (HTTPException 500 (py ''Internal server error'')), st')"
  by (simp add: update_user_def try_except_def except_404)

text \<open>
  At the empty store: no document matches, and the answer is 500.
\<close>

theorem update_user_unmatched_witness:
  "update_user (mem_db no_regex) sample_id
      \<lparr>p_name = Unset, p_email = Unset, p_age = Given 30, p_is_active = Unset\<rparr> empty_store =
     (Inl (HTTPException 500 (py ''Internal server error'')), empty_store)"
  using update_user_unmatched_answers_500[of "mem_db no_regex" sample_id
      "\<lparr>p_name = Unset, p_email = Unset, p_age = Given 30, p_is_active = Unset\<rparr>"
      empty_store empty_store] valid_sample
  by (simp add: mem_db_def sample_id_def update_data_def set_item_def mem_update_one_def
      empty_store_def)

text \<open>
  C2. What \<open>get_user\<close> does when the lookup in the store fails, for a valid identifier:
  \<open>get_user_by_id\<close> catches every exception and returns \<open>None\<close>, and the route answers 404,
  "User not found", whatever the failure was. The claim's 500 is not what reaches the
  caller of this route.
\<close>

theorem get_user_storage_failure_answers_404:
  "ObjectId_is_valid db user_id \<Longrightarrow>
   coll_find_one db st (ObjectId db user_id) = (Inl m, st') \<Longrightarrow>
   get_user db user_id st = (Inl (HTTPException 404 (py ''User not found'')), st') \<and>
   status_code (HTTPException 404 (py ''User not found'')) \<noteq> 500"
  by (simp add: get_user_def get_user_by_id_def status_code_def)

text \<open>
  At a store that cannot be reached: the lookup fails with a message that is not the
  uniqueness signal, and the answer is 404.
\<close>

theorem get_user_offline_witness:
  "coll_find_one (offline_db (py ''connection refused'')) 0
       (ObjectId (offline_db (py ''connection refused'')) sample_id) =
     (Inl (py ''connection refused''), 1) \<and>
   \<not> py_in (py ''duplicate key error'') (py_lower (py ''connection refused'')) \<and>
   get_user (offline_db (py ''connection refused'')) sample_id 0 =
     (Inl (HTTPException 404 (py ''User not found'')), 1) \<and>
   status_code (HTTPException 404 (py ''User not found'')) \<noteq> 500"
proof -
  have f: "coll_find_one (offline_db (py ''connection refused'')) 0
       (ObjectId (offline_db (py ''connection refused'')) sample_id) =
     (Inl (py ''connection refused''), 1)"
    by (simp add: offline_db_def)
  show ?thesis
    using get_user_storage_failure_answers_404[OF sample_id_valid_offline f] f
      refused_not_duplicate
    by simp
qed

text \<open>
  The other routes, for comparison: a storage failure whose message does not hold
  "duplicate key error" is answered with status 500 by \<open>create_user\<close> (a failed insert or
  a failed read-back) and by \<open>update_user\<close> (a failed write), through their handler, and by
  \<open>get_users\<close> and \<open>delete_user\<close>, which do not catch it: the driver's exception leaves the
  route and the framework answers 500.
\<close>

lemma storage_failures_other_routes:
  "(coll_insert_one db st user = (Inl m, st') \<and>
      \<not> py_in (py ''duplicate key error'') (py_lower m) \<longrightarrow>
      create_user db user st = (Inl (HTTPException 500 (py ''Internal server error'')), st')) \<and>
   (coll_insert_one db st user = (Inr i, st') \<and> coll_find_one db st' i = (Inl m, st'') \<and>
      \<not> py_in (py ''duplicate key error'') (py_lower m) \<longrightarrow>
      create_user db user st = (Inl (HTTPException 500 (py ''Internal server error'')), st'')) \<and>
   (ObjectId_is_valid db user_id \<and> update_data upd \<noteq> [] \<and>
      coll_update_one db st (ObjectId db user_id) (update_data upd) = (Inl m, st') \<and>
      \<not> py_in (py ''duplicate key error'') (py_lower m) \<longrightarrow>
      update_user db user_id upd st =
        (Inl (HTTPException 500 (py ''Internal server error'')), st')) \<and>
   (coll_find db st (build_query q min_age max_age is_act page limit) = (Inl m, st') \<longrightarrow>
      get_users db q min_age max_age is_act page limit st = (Inl (DriverError m), st') \<and>
      status_code (DriverError m) = 500) \<and>
   (ObjectId_is_valid db user_id \<and>
      coll_delete_one db st (ObjectId db user_id) = (Inl m, st') \<longrightarrow>
      delete_user db user_id st = (Inl (DriverError m), st') \<and>
      status_code (DriverError m) = 500)"
proof (intro conjI impI)
  assume "coll_insert_one db st user = (Inl m, st') \<and>
    \<not> py_in (py ''duplicate key error'') (py_lower m)"
  then show "create_user db user st =
      (Inl (HTTPException 500 (py ''Internal server error'')), st')"
    by (simp add: create_user_def try_except_def except_other)
next
  assume "coll_insert_one db st user = (Inr i, st') \<and> coll_find_one db st' i = (Inl m, st'') \<and>
      \<not> py_in (py ''duplicate key error'') (py_lower m)"
  then show "create_user db user st =
      (Inl (HTTPException 500 (py ''Internal server error'')), st'')"
    by (simp add: create_user_def try_except_def except_other)
next
  assume "ObjectId_is_valid db user_id \<and> update_data upd \<noteq> [] \<and>
      coll_update_one db st (ObjectId db user_id) (update_data upd) = (Inl m, st') \<and>
      \<not> py_in (py ''duplicate key error'') (py_lower m)"
  then show "update_user db user_id upd st =
        (Inl (HTTPException 500 (py ''Internal server error'')), st')"
    by (simp add: update_user_def try_except_def except_other)
next
  assume "coll_find db st (build_query q min_age max_age is_act page limit) = (Inl m, st')"
  then show "get_users db q min_age max_age is_act page limit st = (Inl (DriverError m), st')"
    by (simp add: get_users_def)
next
  show "status_code (DriverError m) = 500" by (simp add: status_code_def)
next
  assume "ObjectId_is_valid db user_id \<and>
      coll_delete_one db st (ObjectId db user_id) = (Inl m, st')"
  then show "delete_user db user_id st = (Inl (DriverError m), st')"
    by (simp add: delete_user_def)
next
  show "status_code (DriverError m) = 500" by (simp add: status_code_def)
qed

lemma storage_failures_other_routes_offline:
  "create_user (offline_db (py ''connection refused'')) sample_user 0 =
     (Inl (HTTPException 500 (py ''Internal server error'')), 1) \<and>
   create_user (insert_only_db (py ''connection refused'')) sample_user 0 =
     (Inl (HTTPException 500 (py ''Internal server error'')), 2) \<and>
   update_user (offline_db (py ''connection refused'')) sample_id
      \<lparr>p_name = Unset, p_email = Unset, p_age = Given 30, p_is_active = Unset\<rparr> 0 =
     (Inl (HTTPException 500 (py ''Internal server error'')), 1) \<and>
   get_users (offline_db (py ''connection refused'')) None None None None 1 10 0 =
     (Inl (DriverError (py ''connection refused'')), 1) \<and>
   delete_user (offline_db (py ''connection refused'')) sample_id 0 =
     (Inl (DriverError (py ''connection refused'')), 1)"
  using storage_failures_other_routes[where db = "offline_db (py ''connection refused'')"
      and st = 0 and st' = 1 and m = "py ''connection refused''" and user = sample_user
      and user_id = sample_id and q = None and min_age = None and max_age = None
      and is_act = None and page = 1 and limit = 10
      and upd = "\<lparr>p_name = Unset, p_email = Unset, p_age = Given 30, p_is_active = Unset\<rparr>"]
    storage_failures_other_routes[where db = "insert_only_db (py ''connection refused'')"
      and st = 0 and st' = 1 and st'' = 2 and i = 7 and m = "py ''connection refused''"
      and user = sample_user]
    refused_not_duplicate sample_id_valid_offline[of "py ''connection refused''"]
  by (simp add: offline_db_def insert_only_db_def update_data_def set_item_def)

text \<open>
  C3. The validator of \<open>UserCreate\<close> accepts the name made of the multiplication sign and
  the division sign, U+00D7 and U+00F7: both lie in the range of the pattern, neither
  is a letter or a space, and the payload is accepted whole.
\<close>

theorem name_of_two_signs_accepted:
  "\<not> spec_name_ok [215, 247] \<and>
   create_name_ok (Given [215, 247]) \<and>
   UserCreate (\<lambda>s. Some s)
     \<lparr>p_name = Given [215, 247], p_email = Given (py ''a@b.com''), p_age = Given 5,
      p_is_active = Unset\<rparr> =
     Inr \<lparr>name = [215, 247], email = py ''a@b.com'', age = 5, is_active = True\<rparr>"
  by (simp add: spec_name_ok_def spec_letter_def re_space_def create_name_ok_iff
      name_length_ok_def name_class_def UserCreate_def UserCreate_errors_def create_email_ok_def
      create_age_ok_def create_is_active_ok_def given_or_def)

text \<open>
  C4. On a store that enforces the unique index on \<open>email\<close> and holds no document with
  the email yet, two \<open>create_user\<close> calls with the same email, whatever their other fields:
  the first returns the resource of its payload, the second is answered with 409, "User
  with this email already exists", and adds nothing.
\<close>

theorem same_email_one_created_one_conflict:
  assumes "mem_wf st"
    and "\<not> list_ex (\<lambda>d. email d = email u1) (docs st)"
    and "email u2 = email u1"
  shows "\<exists>st1.
           create_user (mem_db regex) u1 st =
             (Inr (Some \<lparr>name = name u1, email = email u1, age = age u1,
                         is_active = is_active u1,
                         res_id = mem_ObjectId_str (next_id st)\<rparr>), st1) \<and>
           create_user (mem_db regex) u2 st1 =
             (Inl (HTTPException 409 (py ''User with this email already exists'')), st1)"
proof -
  let ?new = "\<lparr>name = name u1, email = email u1, age = age u1, is_active = is_active u1,
               doc_id = next_id st\<rparr>"
  let ?st1 = "st\<lparr>docs := docs st @ [?new], next_id := Suc (next_id st)\<rparr>"
  have ins: "mem_insert_one st u1 = (Inr (next_id st), ?st1)"
    using assms(2) by (simp add: mem_insert_one_def)
  have "list_all (\<lambda>d. \<not> doc_id d = next_id st) (docs st)"
    using assms(1) by (auto simp: mem_wf_def list_all_iff)
  then have fnd: "mem_find_one ?st1 (next_id st) = (Inr (Some ?new), ?st1)"
    by (simp add: mem_find_one_def find_fresh_append)
  have first: "create_user (mem_db regex) u1 st =
      (Inr (Some \<lparr>name = name u1, email = email u1, age = age u1, is_active = is_active u1,
                  res_id = mem_ObjectId_str (next_id st)\<rparr>), ?st1)"
    by (simp add: create_user_def mem_db_def ins fnd try_except_def user_to_dict_def)
  have "list_ex (\<lambda>d. email d = email u2) (docs ?st1)"
    using assms(3) by (simp add: list_ex_iff)
  then have "mem_insert_one ?st1 u2 = (Inl duplicate_key_message, ?st1)"
    by (simp add: mem_insert_one_def)
  then have second: "create_user (mem_db regex) u2 ?st1 =
      (Inl (HTTPException 409 (py ''User with this email already exists'')), ?st1)"
    by (simp add: create_user_def mem_db_def try_except_def except_duplicate_key)
  from first second show ?thesis by blast
qed

text \<open>
  At the empty store, for Ann and Bob with one email.
\<close>

theorem same_email_witness:
  "\<exists>st1.
     create_user (mem_db no_regex) sample_user empty_store =
       (Inr (Some \<lparr>name = py ''Ann'', email = py ''a@b.com'', age = 30, is_active = True,
                   res_id = mem_ObjectId_str 0\<rparr>), st1) \<and>
     create_user (mem_db no_regex) \<lparr>name = py ''Bob'', email = py ''a@b.com'', age = 5,
         is_active = False\<rparr> st1 =
       (Inl (HTTPException 409 (py ''User with this email already exists'')), st1)"
  using same_email_one_created_one_conflict[of empty_store sample_user
      "\<lparr>name = py ''Bob'', email = py ''a@b.com'', age = 5, is_active = False\<rparr>" no_regex]
  by (simp add: mem_wf_def empty_store_def sample_user_def)

text \<open>
  C5. An update body in which every field is left out or \<open>null\<close> passes the validation of
  \<open>UserUpdate\<close> (it is no validation error), its \<open>update_data\<close> is empty, and \<open>update_user\<close>,
  for a valid identifier, answers 400, "No data provided for update", without calling
  the store. The empty body is the case where every field is left out.
\<close>

theorem empty_update_refused:
  assumes "no_value (p_name p)" and "no_value (p_email p)" and "no_value (p_age p)"
    and "no_value (p_is_active p)"
  shows "UserUpdate EmailStr p = Inr p \<and>
         update_data p = [] \<and>
         (ObjectId_is_valid db user_id \<longrightarrow>
            update_user db user_id p st =
              (Inl (HTTPException 400 (py ''No data provided for update'')), st))"
proof -
  have n: "update_name_ok (p_name p)"
    using assms(1) by (cases "p_name p") (simp_all add: update_name_ok_def validate_name_def
        to_option_def no_value_def)
  have e: "update_email_ok EmailStr (p_email p)"
    using assms(2) by (cases "p_email p") (simp_all add: update_email_ok_def no_value_def)
  have a: "update_age_ok (p_age p)"
    using assms(3) by (cases "p_age p") (simp_all add: update_age_ok_def no_value_def)
  have keep: "(case p_email p of
                 Given v \<Rightarrow> (case EmailStr v of Some e \<Rightarrow> Given e | None \<Rightarrow> Given v)
               | f \<Rightarrow> f) = p_email p"
    using assms(2) by (cases "p_email p") (simp_all add: no_value_def)
  have v: "UserUpdate EmailStr p = Inr p"
    by (simp add: UserUpdate_def UserUpdate_errors_def n e a keep)
  have d: "update_data p = []"
    using assms by (simp add: update_data_def set_item_no_value)
  show ?thesis using v d by (simp add: update_user_def)
qed

text \<open>
  At the empty body.
\<close>

theorem empty_update_witness:
  "UserUpdate (\<lambda>s. Some s) \<lparr>p_name = Unset, p_email = Unset, p_age = Unset, p_is_active = Unset\<rparr> =
     Inr \<lparr>p_name = Unset, p_email = Unset, p_age = Unset, p_is_active = Unset\<rparr> \<and>
   update_data \<lparr>p_name = Unset, p_email = Unset, p_age = Unset, p_is_active = Unset\<rparr> = [] \<and>
   update_user (mem_db no_regex) sample_id
      \<lparr>p_name = Unset, p_email = Unset, p_age = Unset, p_is_active = Unset\<rparr> empty_store =
     (Inl (HTTPException 400 (py ''No data provided for update'')), empty_store)"
  using empty_update_refused[of
      "\<lparr>p_name = Unset, p_email = Unset, p_age = Unset, p_is_active = Unset\<rparr>"
      "\<lambda>s. Some s" "mem_db no_regex" sample_id empty_store] valid_sample
  by (simp add: no_value_def mem_db_def sample_id_def)

text \<open>
  C6. With both \<open>min_age\<close> and \<open>max_age\<close> given, the filter holds one \<open>age\<close> entry with both
  bounds, \<open>$gte\<close> and \<open>$lte\<close>, and the sort is by \<open>name\<close>, ascending. On the in-memory store
  the listing then returns resources whose ages all lie between the bounds, both
  included, in ascending order of name; it returns unless the store's engine refuses
  the search text as a pattern, and then the store's failure leaves the route.
\<close>

theorem age_range_listing:
  assumes "Query_ok (Some lo) (Some hi) page limit"
  shows "fq_age (fa_filter (build_query q (Some lo) (Some hi) act page limit)) =
           Some \<lparr>gte = Some lo, lte = Some hi\<rparr> \<and>
         fa_sort (build_query q (Some lo) (Some hi) act page limit) = (''name'', 1) \<and>
         (if regex_accepts regex q
          then \<exists>us. get_users (mem_db regex) q (Some lo) (Some hi) act page limit st =
                       (Inr (map Some us), st) \<and>
                    list_all (\<lambda>u. lo \<le> age u \<and> age u \<le> hi) us \<and> sorted (map name us)
          else get_users (mem_db regex) q (Some lo) (Some hi) act page limit st =
                 (Inl (DriverError (py ''Regular expression is invalid'')), st))"
proof (cases "regex_accepts regex q")
  case True
  let ?flt = "fa_filter (build_query q (Some lo) (Some hi) act page limit)"
  obtain rx where sel: "mem_select regex st ?flt = Inr (filter (matches rx ?flt) (docs st))"
    using mem_select_total[OF True] by blast
  let ?ms = "filter (matches rx ?flt) (docs st)"
  let ?ds = "take (nat limit) (drop (nat ((page - 1) * limit)) (sort_key name ?ms))"
  have pg: "1 \<le> page" "0 \<le> limit" using assms(1) by (simp_all add: Query_ok_def)
  have res: "get_users (mem_db regex) q (Some lo) (Some hi) act page limit st =
               (Inr (map Some (map to_resource ?ds)), st)"
    using get_users_mem[OF sel pg] by (simp add: user_to_dict_mem comp_def)
  have sub: "set ?ds \<subseteq> set ?ms"
    using set_take_subset set_drop_subset by (metis (no_types, lifting) set_sort subset_trans)
  have "\<forall>d \<in> set ?ms. lo \<le> age d \<and> age d \<le> hi"
    by (auto simp: matches_def build_query_fields build_age_def age_matches_def)
  with sub have rng: "list_all (\<lambda>u. lo \<le> age u \<and> age u \<le> hi) (map to_resource ?ds)"
    by (auto simp: list_all_iff to_resource_def)
  have "map name (map to_resource ?ds) = map name ?ds"
    by (simp add: to_resource_def comp_def)
  also have "\<dots> = take (nat limit) (drop (nat ((page - 1) * limit)) (map name (sort_key name ?ms)))"
    by (simp add: take_map drop_map)
  finally have srt: "sorted (map name (map to_resource ?ds))"
    by (simp add: sorted_wrt_take sorted_wrt_drop)
  have "\<exists>us. get_users (mem_db regex) q (Some lo) (Some hi) act page limit st =
                  (Inr (map Some us), st) \<and>
               list_all (\<lambda>u. lo \<le> age u \<and> age u \<le> hi) us \<and> sorted (map name us)"
    using res rng srt by blast
  then show ?thesis
    using True by (simp add: build_query_fields build_age_def)
next
  case False
  have pg: "0 \<le> (page - 1) * limit" using assms(1) by (simp add: Query_ok_def)
  have "get_users (mem_db regex) q (Some lo) (Some hi) act page limit st =
          (Inl (DriverError (py ''Regular expression is invalid'')), st)"
    using pg mem_select_refused[OF False]
    by (simp add: get_users_def mem_db_def mem_find_def build_query_fields)
  then show ?thesis
    using False by (simp add: build_query_fields build_age_def)
qed

text \<open>
  On the store of four users, for ages 18 to 30: the listing is Bea (30), then Cleo (25).
\<close>

theorem age_range_witness:
  "fq_age (fa_filter (build_query None (Some 18) (Some 30) None 1 10)) =
     Some \<lparr>gte = Some 18, lte = Some 30\<rparr> \<and>
   fa_sort (build_query None (Some 18) (Some 30) None 1 10) = (''name'', 1) \<and>
   (\<exists>us. get_users (mem_db no_regex) None (Some 18) (Some 30) None 1 10 four_users =
            (Inr (map Some us), four_users) \<and>
         list_all (\<lambda>u. 18 \<le> age u \<and> age u \<le> 30) us \<and> sorted (map name us)) \<and>
   get_users (mem_db no_regex) (Some (py ''('')) (Some 18) (Some 30) None 1 10 four_users =
     (Inl (DriverError (py ''Regular expression is invalid'')), four_users)"
  using age_range_listing[of 18 30 1 10 None None no_regex four_users]
    age_range_listing[of 18 30 1 10 "Some (py ''('')" None no_regex four_users]
  by (simp add: Query_ok_def regex_accepts_def no_regex_def py_def)

text \<open>
  C7. The query built has \<open>skip = (page - 1) * limit\<close> and \<open>limit\<close> as given. On the
  in-memory store, when 15 documents match the filter, the listing with \<open>limit = 10\<close>
  returns 10 resources for \<open>page = 1\<close> and 5 for \<open>page = 2\<close>, and no resource is on both pages.
\<close>

theorem pagination_pages:
  "fa_skip (build_query q min_age max_age is_act page limit) = (page - 1) * limit \<and>
   fa_limit (build_query q min_age max_age is_act page limit) = limit \<and>
   (mem_wf st \<and>
    mem_select regex st (fa_filter (build_query q min_age max_age is_act 1 10)) = Inr ms \<and>
    length ms = 15 \<longrightarrow>
      (\<exists>p1 p2.
         get_users (mem_db regex) q min_age max_age is_act 1 10 st = (Inr (map Some p1), st) \<and>
         get_users (mem_db regex) q min_age max_age is_act 2 10 st = (Inr (map Some p2), st) \<and>
         length p1 = 10 \<and> length p2 = 5 \<and> set p1 \<inter> set p2 = {}))"
proof (intro conjI impI)
  show "fa_skip (build_query q min_age max_age is_act page limit) = (page - 1) * limit"
    and "fa_limit (build_query q min_age max_age is_act page limit) = limit"
    by (simp_all add: build_query_fields)
next
  assume a: "mem_wf st \<and>
    mem_select regex st (fa_filter (build_query q min_age max_age is_act 1 10)) = Inr ms \<and>
    length ms = 15"
  let ?xs = "map to_resource (sort_key name ms)"
  have same: "fa_filter (build_query q min_age max_age is_act 2 10) =
              fa_filter (build_query q min_age max_age is_act 1 10)"
    by (simp add: build_query_def)
  have sel1: "mem_select regex st (fa_filter (build_query q min_age max_age is_act 1 10)) = Inr ms"
    using a by simp
  have sel2: "mem_select regex st (fa_filter (build_query q min_age max_age is_act 2 10)) = Inr ms"
    using a same by simp
  have g1: "get_users (mem_db regex) q min_age max_age is_act 1 10 st =
              (Inr (map Some (take 10 ?xs)), st)"
    using get_users_mem[OF sel1] by (simp add: user_to_dict_mem comp_def take_map)
  have g2: "get_users (mem_db regex) q min_age max_age is_act 2 10 st =
              (Inr (map Some (take 10 (drop 10 ?xs))), st)"
    using get_users_mem[OF sel2] by (simp add: user_to_dict_mem comp_def take_map drop_map)
  have len: "length ?xs = 15" using a by simp
  have d: "distinct ?xs"
    using a mem_select_distinct distinct_ids_resources by blast
  have "set (take 10 (drop 0 ?xs)) \<inter> set (take 10 (drop 10 ?xs)) = {}"
    using d by (rule pages_disjoint) simp
  then have dis: "set (take 10 ?xs) \<inter> set (take 10 (drop 10 ?xs)) = {}" by simp
  have l1: "length (take 10 ?xs) = 10" using len by simp
  have l2: "length (take 10 (drop 10 ?xs)) = 5" using len by simp
  show "\<exists>p1 p2.
         get_users (mem_db regex) q min_age max_age is_act 1 10 st = (Inr (map Some p1), st) \<and>
         get_users (mem_db regex) q min_age max_age is_act 2 10 st = (Inr (map Some p2), st) \<and>
         length p1 = 10 \<and> length p2 = 5 \<and> set p1 \<inter> set p2 = {}"
    using g1 g2 l1 l2 dis by blast
qed

text \<open>
  At the store of fifteen users, with no filter.
\<close>

theorem pagination_witness:
  "fa_skip (build_query None None None None 2 10) = (2 - 1) * 10 \<and>
   fa_limit (build_query None None None None 2 10) = 10 \<and>
   (\<exists>p1 p2.
      get_users (mem_db no_regex) None None None None 1 10 fifteen_users =
        (Inr (map Some p1), fifteen_users) \<and>
      get_users (mem_db no_regex) None None None None 2 10 fifteen_users =
        (Inr (map Some p2), fifteen_users) \<and>
      length p1 = 10 \<and> length p2 = 5 \<and> set p1 \<inter> set p2 = {})"
proof -
  have sel: "mem_select no_regex fifteen_users
               (fa_filter (build_query None None None None 1 10)) = Inr (docs fifteen_users)"
    by (simp add: mem_select_def build_query_def build_age_def matches_def)
  have len: "length (docs fifteen_users) = 15"
    by (simp add: fifteen_users_def)
  show ?thesis
    using pagination_pages[of None None None None 2 10 fifteen_users no_regex
        "docs fifteen_users"] fifteen_users_wf sel len
    by simp
qed

text \<open>
  C10. For every update body, \<open>update_data\<close> holds exactly the fields that were sent with a
  value, each with the value sent, falsy or not: \<open>is_active = false\<close> and \<open>age = 0\<close> stay in
  the \<open>$set\<close>, whatever else the body holds, and the update is not answered as an empty
  one. When \<open>is_active\<close> (or \<open>age\<close>) is the only field with a value, the \<open>$set\<close> is that one
  field, and on the in-memory store the document found is replaced by itself with that
  field set to that value and nothing else changed.
\<close>

theorem falsy_values_are_set:
  "((k, v) \<in> set (update_data p) \<longleftrightarrow>
      (\<exists>n. p_name p = Given n \<and> k = ''name'' \<and> v = VStr n) \<or>
      (\<exists>e. p_email p = Given e \<and> k = ''email'' \<and> v = VStr e) \<or>
      (\<exists>a. p_age p = Given a \<and> k = ''age'' \<and> v = VInt a) \<or>
      (\<exists>b. p_is_active p = Given b \<and> k = ''is_active'' \<and> v = VBool b)) \<and>
   (p_is_active p = Given False \<longrightarrow>
      (''is_active'', VBool False) \<in> set (update_data p) \<and> update_data p \<noteq> []) \<and>
   (p_age p = Given 0 \<longrightarrow>
      (''age'', VInt 0) \<in> set (update_data p) \<and> update_data p \<noteq> []) \<and>
   (ObjectId_is_valid db user_id \<and> (p_is_active p = Given False \<or> p_age p = Given 0) \<longrightarrow>
      fst (update_user db user_id p st') \<noteq>
        Inl (HTTPException 400 (py ''No data provided for update''))) \<and>
   (no_value (p_name p) \<and> no_value (p_email p) \<and> no_value (p_age p) \<and>
    p_is_active p = Given b \<longrightarrow>
      update_data p = [(''is_active'', VBool b)] \<and>
      (mem_wf st \<and> mem_is_valid user_id \<and>
       List.find (\<lambda>x. doc_id x = mem_ObjectId user_id) (docs st) = Some d \<longrightarrow>
         update_user (mem_db regex) user_id p st =
           (Inr (Some (to_resource (d\<lparr>is_active := b\<rparr>))),
            st\<lparr>docs := replace_first (\<lambda>x. doc_id x = mem_ObjectId user_id)
                         (d\<lparr>is_active := b\<rparr>) (docs st)\<rparr>))) \<and>
   (no_value (p_name p) \<and> no_value (p_email p) \<and> no_value (p_is_active p) \<and>
    p_age p = Given a \<longrightarrow>
      update_data p = [(''age'', VInt a)] \<and>
      (mem_wf st \<and> mem_is_valid user_id \<and>
       List.find (\<lambda>x. doc_id x = mem_ObjectId user_id) (docs st) = Some d \<longrightarrow>
         update_user (mem_db regex) user_id p st =
           (Inr (Some (to_resource (d\<lparr>age := a\<rparr>))),
            st\<lparr>docs := replace_first (\<lambda>x. doc_id x = mem_ObjectId user_id)
                         (d\<lparr>age := a\<rparr>) (docs st)\<rparr>)))"
proof (intro conjI impI)
  show "(k, v) \<in> set (update_data p) \<longleftrightarrow>
      (\<exists>n. p_name p = Given n \<and> k = ''name'' \<and> v = VStr n) \<or>
      (\<exists>e. p_email p = Given e \<and> k = ''email'' \<and> v = VStr e) \<or>
      (\<exists>a. p_age p = Given a \<and> k = ''age'' \<and> v = VInt a) \<or>
      (\<exists>b. p_is_active p = Given b \<and> k = ''is_active'' \<and> v = VBool b)"
    by (rule update_data_iff)
next
  assume f: "p_is_active p = Given False"
  then show m: "(''is_active'', VBool False) \<in> set (update_data p)"
    by (auto simp: update_data_iff)
  then show "update_data p \<noteq> []" by auto
next
  assume z: "p_age p = Given 0"
  then show m: "(''age'', VInt 0) \<in> set (update_data p)"
    by (auto simp: update_data_iff)
  then show "update_data p \<noteq> []" by auto
next
  assume h: "ObjectId_is_valid db user_id \<and> (p_is_active p = Given False \<or> p_age p = Given 0)"
  then have "(''is_active'', VBool False) \<in> set (update_data p) \<or>
             (''age'', VInt 0) \<in> set (update_data p)"
    by (auto simp: update_data_iff)
  then have "update_data p \<noteq> []" by auto
  with h show "fst (update_user db user_id p st') \<noteq>
        Inl (HTTPException 400 (py ''No data provided for update''))"
    by (simp add: not_empty_update)
next
  assume h: "no_value (p_name p) \<and> no_value (p_email p) \<and> no_value (p_age p) \<and>
    p_is_active p = Given b"
  then show u: "update_data p = [(''is_active'', VBool b)]"
    by (simp add: only_is_active)
  assume s: "mem_wf st \<and> mem_is_valid user_id \<and>
       List.find (\<lambda>x. doc_id x = mem_ObjectId user_id) (docs st) = Some d"
  show "update_user (mem_db regex) user_id p st =
           (Inr (Some (to_resource (d\<lparr>is_active := b\<rparr>))),
            st\<lparr>docs := replace_first (\<lambda>x. doc_id x = mem_ObjectId user_id)
                         (d\<lparr>is_active := b\<rparr>) (docs st)\<rparr>)"
    using update_one_field[of st user_id d p "(''is_active'', VBool b)" regex, OF _ _ _ u] s
    by simp
next
  assume h: "no_value (p_name p) \<and> no_value (p_email p) \<and> no_value (p_is_active p) \<and>
    p_age p = Given a"
  then show u: "update_data p = [(''age'', VInt a)]"
    by (simp add: only_age)
  assume s: "mem_wf st \<and> mem_is_valid user_id \<and>
       List.find (\<lambda>x. doc_id x = mem_ObjectId user_id) (docs st) = Some d"
  show "update_user (mem_db regex) user_id p st =
           (Inr (Some (to_resource (d\<lparr>age := a\<rparr>))),
            st\<lparr>docs := replace_first (\<lambda>x. doc_id x = mem_ObjectId user_id)
                         (d\<lparr>age := a\<rparr>) (docs st)\<rparr>)"
    using update_one_field[of st user_id d p "(''age'', VInt a)" regex, OF _ _ _ u] s
    by simp
qed

text \<open>
  At the store of four users, for the document of Bea: \<open>is_active = false\<close> alone, \<open>age = 0\<close>
  alone, and both beside a name and a \<open>null\<close> email.
\<close>

theorem falsy_values_witness:
  "update_user (mem_db no_regex) (py ''000000000000000000000002'')
       \<lparr>p_name = Unset, p_email = Unset, p_age = Unset, p_is_active = Given False\<rparr> four_users =
     (Inr (Some \<lparr>name = py ''Bea'', email = py ''b@x.org'', age = 30, is_active = False,
                 res_id = mem_ObjectId_str 2\<rparr>),
      \<lparr>docs =
        [\<lparr>name = py ''Dan'', email = py ''d@x.org'', age = 17, is_active = True, doc_id = 0\<rparr>,
         \<lparr>name = py ''Cleo'', email = py ''c@x.org'', age = 25, is_active = True, doc_id = 1\<rparr>,
         \<lparr>name = py ''Bea'', email = py ''b@x.org'', age = 30, is_active = False, doc_id = 2\<rparr>,
         \<lparr>name = py ''Al'', email = py ''a@x.org'', age = 40, is_active = False, doc_id = 3\<rparr>],
       next_id = 4\<rparr>) \<and>
   update_user (mem_db no_regex) (py ''000000000000000000000002'')
       \<lparr>p_name = Unset, p_email = Unset, p_age = Given 0, p_is_active = Unset\<rparr> four_users =
     (Inr (Some \<lparr>name = py ''Bea'', email = py ''b@x.org'', age = 0, is_active = True,
                 res_id = mem_ObjectId_str 2\<rparr>),
      \<lparr>docs =
        [\<lparr>name = py ''Dan'', email = py ''d@x.org'', age = 17, is_active = True, doc_id = 0\<rparr>,
         \<lparr>name = py ''Cleo'', email = py ''c@x.org'', age = 25, is_active = True, doc_id = 1\<rparr>,
         \<lparr>name = py ''Bea'', email = py ''b@x.org'', age = 0, is_active = True, doc_id = 2\<rparr>,
         \<lparr>name = py ''Al'', email = py ''a@x.org'', age = 40, is_active = False, doc_id = 3\<rparr>],
       next_id = 4\<rparr>) \<and>
   (''is_active'', VBool False) \<in>
     set (update_data \<lparr>p_name = Given (py ''Bea''), p_email = Null, p_age = Given 0,
                        p_is_active = Given False\<rparr>) \<and>
   (''age'', VInt 0) \<in>
     set (update_data \<lparr>p_name = Given (py ''Bea''), p_email = Null, p_age = Given 0,
                        p_is_active = Given False\<rparr>) \<and>
   fst (update_user (mem_db no_regex) (py ''000000000000000000000002'')
          \<lparr>p_name = Given (py ''Bea''), p_email = Null, p_age = Given 0,
             p_is_active = Given False\<rparr> four_users) \<noteq>
     Inl (HTTPException 400 (py ''No data provided for update''))"
proof -
  have f: "List.find (\<lambda>x. doc_id x = mem_ObjectId (py ''000000000000000000000002''))
             (docs four_users) =
           Some \<lparr>name = py ''Bea'', email = py ''b@x.org'', age = 30, is_active = True,
                  doc_id = 2\<rparr>"
    by (simp add: id_two four_users_def)
  have v: "ObjectId_is_valid (mem_db no_regex) (py ''000000000000000000000002'')"
    using id_two_valid by (simp add: mem_db_def)
  show ?thesis
    using falsy_values_are_set[where st = four_users
        and user_id = "py ''000000000000000000000002''"
        and d = "\<lparr>name = py ''Bea'', email = py ''b@x.org'', age = 30, is_active = True,
                  doc_id = 2\<rparr>"
        and regex = no_regex and b = False and a = 0 and k = "''is_active''"
        and v = "VBool False" and db = "mem_db no_regex" and st' = four_users
        and p = "\<lparr>p_name = Unset, p_email = Unset, p_age = Unset, p_is_active = Given False\<rparr>"]
      falsy_values_are_set[where st = four_users
        and user_id = "py ''000000000000000000000002''"
        and d = "\<lparr>name = py ''Bea'', email = py ''b@x.org'', age = 30, is_active = True,
                  doc_id = 2\<rparr>"
        and regex = no_regex and a = 0 and b = False and k = "''age''"
        and v = "VInt 0" and db = "mem_db no_regex" and st' = four_users
        and p = "\<lparr>p_name = Unset, p_email = Unset, p_age = Given 0, p_is_active = Unset\<rparr>"]
      falsy_values_are_set[where db = "mem_db no_regex"
        and user_id = "py ''000000000000000000000002''" and st' = four_users
        and st = four_users and regex = no_regex and a = 0 and b = False and k = "''age''"
        and v = "VInt 0"
        and d = "\<lparr>name = py ''Bea'', email = py ''b@x.org'', age = 30, is_active = True,
                  doc_id = 2\<rparr>"
        and p = "\<lparr>p_name = Given (py ''Bea''), p_email = Null, p_age = Given 0,
                  p_is_active = Given False\<rparr>"]
      four_users_wf id_two_valid f v
    by (simp add: id_two to_resource_def four_users_def no_value_def)
qed

end
